theory Spec2Isabelle
  imports Main
begin

section \<open>Python values used by app.py\<close>

text \<open>
  A Python \<open>str\<close> is modelled as a \<open>string\<close>: one \<open>char\<close> stands for one code point,
  so \<open>length\<close> is Python's \<open>len\<close> and \<open>take n\<close> is the slice \<open>[:n]\<close>. Isabelle's
  characters cover the code points 0 to 255.
\<close>

definition quote :: char where
  "quote = CHR 0x27"

text \<open>\<open>str.isspace\<close> on one code point below 256: TAB, LF, VT, FF, CR, FS, GS, RS, US,
  SPACE, NEL and NBSP.\<close>

definition isspace :: "char \<Rightarrow> bool" where
  "isspace c = (c \<in> set [CHR 0x09, CHR 0x0A, CHR 0x0B, CHR 0x0C, CHR 0x0D,
                          CHR 0x1C, CHR 0x1D, CHR 0x1E, CHR 0x1F, CHR 0x20,
                          CHR 0x85, CHR 0xA0])"

text \<open>\<open>str.strip()\<close> without argument removes leading and trailing whitespace.\<close>

definition strip :: "string \<Rightarrow> string" where
  "strip s = rev (dropWhile isspace (rev (dropWhile isspace s)))"

text \<open>Exceptions are values. \<open>ExternalError\<close> is any exception raised inside a library
  the application calls (pytesseract, joblib, scikit-learn, xgboost, transformers), with
  the name of its class.\<close>

datatype exn =
    AttributeError
  | TypeError
  | IndexError
  | KeyError
  | IntegrityError
  | DatabaseError
  | ExternalError string

section \<open>Runs with a trace of the calls to the external engines\<close>

text \<open>Every call that process_document makes to the OCR engine or to a loaded model
  artifact is logged with its arguments, so that "stage X is not invoked" is a property
  of the returned trace.\<close>

datatype ('img, 'vec) event =
    OcrCall 'img
  | VectorizerCall "string list"
  | ClassifierCall 'vec
  | DecoderCall "nat list"
  | SummarizerCall string nat nat bool

type_synonym ('a, 'img, 'vec) run = "(exn + 'a) \<times> ('img, 'vec) event list"

definition return_run :: "'a \<Rightarrow> ('a, 'img, 'vec) run" where
  "return_run x = (Inr x, [])"

definition raise_run :: "exn \<Rightarrow> ('a, 'img, 'vec) run" where
  "raise_run e = (Inl e, [])"

definition call_run :: "('img, 'vec) event \<Rightarrow> exn + 'a \<Rightarrow> ('a, 'img, 'vec) run" where
  "call_run ev r = (r, [ev])"

text \<open>Sequencing: an exception of the first part skips the rest.\<close>

definition bind_run ::
  "('a, 'img, 'vec) run \<Rightarrow> ('a \<Rightarrow> ('b, 'img, 'vec) run) \<Rightarrow> ('b, 'img, 'vec) run" where
  "bind_run m f =
     (case m of
        (Inl e, tr) \<Rightarrow> (Inl e, tr)
      | (Inr x, tr) \<Rightarrow> (case f x of (r, tr') \<Rightarrow> (r, tr @ tr')))"

text \<open>\<open>obj.method\<close> on a global that is \<open>None\<close> raises AttributeError; calling a global
  that is \<open>None\<close> raises TypeError; \<open>xs[0]\<close> on an empty sequence raises IndexError;
  \<open>d[k]\<close> on a missing key raises KeyError.\<close>

definition attr_of :: "'a option \<Rightarrow> ('a, 'img, 'vec) run" where
  "attr_of g = (case g of None \<Rightarrow> raise_run AttributeError | Some a \<Rightarrow> return_run a)"

definition callable_of :: "'a option \<Rightarrow> ('a, 'img, 'vec) run" where
  "callable_of g = (case g of None \<Rightarrow> raise_run TypeError | Some a \<Rightarrow> return_run a)"

definition index0 :: "'a list \<Rightarrow> ('a, 'img, 'vec) run" where
  "index0 xs = (case xs of [] \<Rightarrow> raise_run IndexError | x # _ \<Rightarrow> return_run x)"

definition getitem :: "(string \<times> 'a) list \<Rightarrow> string \<Rightarrow> ('a, 'img, 'vec) run" where
  "getitem d k = (case map_of d k of None \<Rightarrow> raise_run KeyError | Some v \<Rightarrow> return_run v)"

fun summarizer_calls :: "('img, 'vec) event list \<Rightarrow> (string \<times> nat \<times> nat \<times> bool) list" where
  "summarizer_calls [] = []"
| "summarizer_calls (SummarizerCall t mx mn smp # evs) = (t, mx, mn, smp) # summarizer_calls evs"
| "summarizer_calls (_ # evs) = summarizer_calls evs"

section \<open>Model loading (load_resources)\<close>

text \<open>The four module globals assigned from load_resources(). A loaded artifact is the
  function it offers: \<open>vectorizer.transform\<close>, \<open>model.predict\<close>,
  \<open>encoder.inverse_transform\<close>, and the summarization pipeline called with
  \<open>(text, max_length, min_length, do_sample)\<close>, which returns a list of dicts.\<close>

record 'vec resources =
  xgb_model :: "('vec \<Rightarrow> exn + nat list) option"
  tfidf_vectorizer :: "(string list \<Rightarrow> exn + 'vec) option"
  label_encoder :: "(nat list \<Rightarrow> exn + string list) option"
  summarizer :: "(string \<Rightarrow> nat \<Rightarrow> nat \<Rightarrow> bool \<Rightarrow> exn + (string \<times> string) list list) option"

definition no_resources :: "'vec resources" where
  "no_resources = \<lparr>xgb_model = None, tfidf_vectorizer = None,
                    label_encoder = None, summarizer = None\<rparr>"

text \<open>load_resources: the arguments are the outcomes of the three \<open>joblib.load\<close> calls
  and of \<open>pipeline("summarization", ...)\<close>, in the order of the source; an exception of
  class Exception in any of them is caught and four \<open>None\<close>s are returned.\<close>

definition load_resources ::
  "exn + ('vec \<Rightarrow> exn + nat list) \<Rightarrow> exn + (string list \<Rightarrow> exn + 'vec) \<Rightarrow>
   exn + (nat list \<Rightarrow> exn + string list) \<Rightarrow>
   exn + (string \<Rightarrow> nat \<Rightarrow> nat \<Rightarrow> bool \<Rightarrow> exn + (string \<times> string) list list) \<Rightarrow>
   'vec resources" where
  "load_resources load_model load_vectorizer load_encoder load_summarizer =
     (case load_model of Inl e \<Rightarrow> no_resources | Inr model \<Rightarrow>
      (case load_vectorizer of Inl e \<Rightarrow> no_resources | Inr vectorizer \<Rightarrow>
       (case load_encoder of Inl e \<Rightarrow> no_resources | Inr encoder \<Rightarrow>
        (case load_summarizer of Inl e \<Rightarrow> no_resources | Inr summ \<Rightarrow>
           \<lparr>xgb_model = Some model, tfidf_vectorizer = Some vectorizer,
            label_encoder = Some encoder, summarizer = Some summ\<rparr>))))"

section \<open>The pipeline (process_document)\<close>

text \<open>Part B of process_document: vectorize, predict, decode.\<close>

definition classification :: "'vec resources \<Rightarrow> string \<Rightarrow> (string, 'img, 'vec) run" where
  "classification res text =
     bind_run (attr_of (tfidf_vectorizer res)) (\<lambda>transform.
     bind_run (call_run (VectorizerCall [text]) (transform [text])) (\<lambda>text_vec.
     bind_run (attr_of (xgb_model res)) (\<lambda>predict.
     bind_run (call_run (ClassifierCall text_vec) (predict text_vec)) (\<lambda>preds.
     bind_run (index0 preds) (\<lambda>pred_idx.
     bind_run (attr_of (label_encoder res)) (\<lambda>inverse_transform.
     bind_run (call_run (DecoderCall [pred_idx]) (inverse_transform [pred_idx])) (\<lambda>labels.
     index0 labels)))))))"

text \<open>Part C of process_document: truncate, then the sentinel or the model.\<close>

definition summarization :: "'vec resources \<Rightarrow> string \<Rightarrow> (string, 'img, 'vec) run" where
  "summarization res text =
     (let input_text = take 3000 text in
      if length input_text < 50 then return_run ''Text too short to summarize.''
      else
        bind_run (callable_of (summarizer res)) (\<lambda>summ.
        bind_run (call_run (SummarizerCall input_text 130 30 False)
                           (summ input_text 130 30 False)) (\<lambda>res0.
        bind_run (index0 res0) (\<lambda>d.
        getitem d ''summary_text''))))"

text \<open>process_document(image), the image written \<open>img\<close>: the first argument is \<open>pytesseract.image_to_string\<close>.
  The result is the returned triple (category, summary, text), or the exception that
  leaves the function.\<close>

definition process_document ::
  "('img \<Rightarrow> exn + string) \<Rightarrow> 'vec resources \<Rightarrow> 'img \<Rightarrow>
   (string option \<times> string option \<times> string, 'img, 'vec) run" where
  "process_document image_to_string res img =
     bind_run (call_run (OcrCall img) (image_to_string img)) (\<lambda>text.
       if strip text = [] then return_run (None, None, ''No text found'')
       else
         bind_run (classification res text) (\<lambda>category.
         bind_run (summarization res text) (\<lambda>summary.
         return_run (Some category, Some summary, text))))"

section \<open>The database (init_db and the SQL statements)\<close>

text \<open>Table \<open>users(username TEXT PRIMARY KEY, password TEXT)\<close> is a list of rows;
  table \<open>history(id INTEGER PRIMARY KEY AUTOINCREMENT, username, timestamp, filename,
  category, summary)\<close> is a list of rows in insertion order, with the counter SQLite
  keeps for AUTOINCREMENT (the largest id handed out so far).\<close>

record history_row =
  row_id :: nat
  row_username :: string
  row_timestamp :: string
  row_filename :: string
  row_category :: string
  row_summary :: "string option"

record db =
  users :: "(string \<times> string) list"
  history :: "history_row list"
  history_seq :: nat

text \<open>init_db: CREATE TABLE IF NOT EXISTS. A new file (\<open>None\<close>) gets the two empty
  tables; an existing database is left as it is.\<close>

definition init_db :: "db option \<Rightarrow> db" where
  "init_db file =
     (case file of
        None \<Rightarrow> \<lparr>users = [], history = [], history_seq = 0\<rparr>
      | Some d \<Rightarrow> d)"

text \<open>make_hashes: the first argument is \<open>hashlib.sha256(...).hexdigest()\<close> composed
  with \<open>str.encode\<close>.\<close>

definition make_hashes :: "(string \<Rightarrow> string) \<Rightarrow> string \<Rightarrow> string" where
  "make_hashes sha256_hex password = sha256_hex password"

definition check_hashes :: "(string \<Rightarrow> string) \<Rightarrow> string \<Rightarrow> string \<Rightarrow> bool" where
  "check_hashes sha256_hex password hashed_text =
     (if make_hashes sha256_hex password = hashed_text then True else False)"

subsection \<open>What each function submits: statement text and bound values\<close>

type_synonym query = "string \<times> string option list"

definition add_user_query :: "(string \<Rightarrow> string) \<Rightarrow> string \<Rightarrow> string \<Rightarrow> query" where
  "add_user_query sha256_hex username password =
     (''INSERT INTO users(username, password) VALUES (?,?)'',
      [Some username, Some (make_hashes sha256_hex password)])"

definition login_user_query :: "(string \<Rightarrow> string) \<Rightarrow> string \<Rightarrow> string \<Rightarrow> query" where
  "login_user_query sha256_hex username password =
     (''SELECT * FROM users WHERE username =? AND password = ?'',
      [Some username, Some (make_hashes sha256_hex password)])"

definition save_history_query ::
  "string \<Rightarrow> string \<Rightarrow> string \<Rightarrow> string \<Rightarrow> string option \<Rightarrow> query" where
  "save_history_query username timestamp filename category summary =
     (''INSERT INTO history (username, timestamp, filename, category, summary) VALUES (?,?,?,?,?)'',
      [Some username, Some timestamp, Some filename, Some category, summary])"

definition select_history_where :: string where
  "select_history_where =
     ''SELECT timestamp, filename, category, summary FROM history WHERE ''"

text \<open>The f-string of get_user_history: the username is pasted between two quote
  characters; no value is bound.\<close>

definition get_user_history_query :: "string \<Rightarrow> query" where
  "get_user_history_query username =
     (select_history_where @ ''username = '' @ [quote] @ username @ [quote] @
        '' ORDER BY id DESC'',
      [])"

subsection \<open>What SQLite does with the three parameterised statements\<close>

text \<open>INSERT INTO users: the PRIMARY KEY refuses a username that is already in the
  table (sqlite3.IntegrityError).\<close>

fun exec_insert_user :: "db \<Rightarrow> query \<Rightarrow> exn + db" where
  "exec_insert_user d (sql, [Some u, Some p]) =
     (if u \<in> set (map fst (users d)) then Inl IntegrityError
      else Inr (d\<lparr>users := users d @ [(u, p)]\<rparr>))"
| "exec_insert_user d (sql, ps) = Inl (ExternalError ''ProgrammingError'')"

fun exec_select_user :: "db \<Rightarrow> query \<Rightarrow> exn + (string \<times> string) list" where
  "exec_select_user d (sql, [Some u, Some p]) =
     Inr (filter (\<lambda>r. fst r = u \<and> snd r = p) (users d))"
| "exec_select_user d (sql, ps) = Inl (ExternalError ''ProgrammingError'')"

fun exec_insert_history :: "db \<Rightarrow> query \<Rightarrow> exn + db" where
  "exec_insert_history d (sql, [Some u, Some t, Some f, Some c, s]) =
     Inr (d\<lparr>history := history d @
               [\<lparr>row_id = Suc (history_seq d), row_username = u, row_timestamp = t,
                 row_filename = f, row_category = c, row_summary = s\<rparr>],
            history_seq := Suc (history_seq d)\<rparr>)"
| "exec_insert_history d (sql, ps) = Inl (ExternalError ''ProgrammingError'')"

subsection \<open>What SQLite does with the text of the history query\<close>

text \<open>The text after \<open>WHERE\<close> depends on the username, so it is read the way SQLite
  reads it. The model covers this fragment of SQL: tokens are words of letters and
  underscores, \<open>=\<close> and string literals (a quote inside a literal is written twice),
  separated by spaces; the condition is a chain of equalities joined by \<open>OR\<close>, each
  side the column \<open>username\<close> or a literal; then \<open>ORDER BY id DESC\<close>. A literal that
  is not closed is SQLite's error "unrecognized token". A text outside the fragment gets
  no meaning here (\<open>Unmodelled\<close>).\<close>

datatype 'a outcome = Returns 'a | Raises exn | Unmodelled

datatype token = TWord string | TEq | TStr string

datatype lexstate = Between | InWord string | InLit string | LitQuote string

definition is_letter :: "char \<Rightarrow> bool" where
  "is_letter c =
     (let n = (of_char c :: nat) in (65 \<le> n \<and> n \<le> 90) \<or> (97 \<le> n \<and> n \<le> 122) \<or> n = 95)"

fun emit :: "token \<Rightarrow> token list outcome \<Rightarrow> token list outcome" where
  "emit t (Returns ts) = Returns (t # ts)"
| "emit t (Raises e) = Raises e"
| "emit t Unmodelled = Unmodelled"

function (sequential) lex :: "lexstate \<Rightarrow> string \<Rightarrow> token list outcome" where
  "lex Between [] = Returns []"
| "lex (InWord w) [] = Returns [TWord w]"
| "lex (InLit v) [] = Raises DatabaseError"
| "lex (LitQuote v) [] = Returns [TStr v]"
| "lex Between (c # cs) =
     (if c = CHR '' '' then lex Between cs
      else if c = CHR ''='' then emit TEq (lex Between cs)
      else if c = quote then lex (InLit []) cs
      else if is_letter c then lex (InWord [c]) cs
      else Unmodelled)"
| "lex (InWord w) (c # cs) =
     (if is_letter c then lex (InWord (w @ [c])) cs
      else if c = quote \<and> (w = ''x'' \<or> w = ''X'') then Unmodelled
      else emit (TWord w) (lex Between (c # cs)))"
| "lex (InLit v) (c # cs) =
     (if c = quote then lex (LitQuote v) cs
      else if c = CHR 0x00 then Unmodelled
      else lex (InLit (v @ [c])) cs)"
| "lex (LitQuote v) (c # cs) =
     (if c = quote then lex (InLit (v @ [quote])) cs
      else emit (TStr v) (lex Between (c # cs)))"
  by pat_completeness auto
termination
  by (relation "measure (\<lambda>(st, s). 2 * length s + (if st = Between then 0 else 1))") auto

fun operand :: "token \<Rightarrow> (history_row \<Rightarrow> string) option" where
  "operand (TStr v) = Some (\<lambda>r. v)"
| "operand (TWord w) = (if w = ''username'' then Some row_username else None)"
| "operand TEq = None"

fun parse_where :: "token list \<Rightarrow> (history_row \<Rightarrow> bool) option" where
  "parse_where (a # TEq # b # rest) =
     (case (operand a, operand b) of
        (Some fa, Some fb) \<Rightarrow>
          (if rest = [TWord ''ORDER'', TWord ''BY'', TWord ''id'', TWord ''DESC'']
           then Some (\<lambda>r. fa r = fb r)
           else (case rest of
                   TWord w # rest' \<Rightarrow>
                     (if w = ''OR'' then
                        (case parse_where rest' of
                           Some q \<Rightarrow> Some (\<lambda>r. fa r = fb r \<or> q r)
                         | None \<Rightarrow> None)
                      else None)
                 | _ \<Rightarrow> None))
      | _ \<Rightarrow> None)"
| "parse_where ts = None"

type_synonym frame_row = "string \<times> string \<times> string \<times> string option"

definition project :: "history_row \<Rightarrow> frame_row" where
  "project r = (row_timestamp r, row_filename r, row_category r, row_summary r)"

text \<open>\<open>pd.read_sql_query\<close>: the rows the condition selects, by id descending, with the
  four selected columns. pandas reports an error of SQLite as DatabaseError.\<close>

definition exec_select_history :: "db \<Rightarrow> query \<Rightarrow> frame_row list outcome" where
  "exec_select_history d q =
     (let sql = fst q; n = length select_history_where in
      if take n sql = select_history_where \<and> snd q = [] then
        (case lex Between (drop n sql) of
           Returns toks \<Rightarrow>
             (case parse_where toks of
                Some cond \<Rightarrow> Returns (map project (rev (sort_key row_id (filter cond (history d)))))
              | None \<Rightarrow> Unmodelled)
         | Raises e \<Rightarrow> Raises e
         | Unmodelled \<Rightarrow> Unmodelled)
      else Unmodelled)"

section \<open>The store functions\<close>

text \<open>add_user: only sqlite3.IntegrityError is caught; the commit happens on success.\<close>

definition add_user ::
  "(string \<Rightarrow> string) \<Rightarrow> db \<Rightarrow> string \<Rightarrow> string \<Rightarrow> (exn + bool) \<times> db" where
  "add_user sha256_hex d username password =
     (case exec_insert_user d (add_user_query sha256_hex username password) of
        Inr d' \<Rightarrow> (Inr True, d')
      | Inl e \<Rightarrow> (if e = IntegrityError then (Inr False, d) else (Inl e, d)))"

definition login_user ::
  "(string \<Rightarrow> string) \<Rightarrow> db \<Rightarrow> string \<Rightarrow> string \<Rightarrow> exn + (string \<times> string) list" where
  "login_user sha256_hex d username password =
     exec_select_user d (login_user_query sha256_hex username password)"

text \<open>save_history: the timestamp is the formatted reading of the clock.\<close>

definition save_history ::
  "string \<Rightarrow> db \<Rightarrow> string \<Rightarrow> string \<Rightarrow> string \<Rightarrow> string option \<Rightarrow> exn + db" where
  "save_history now d username filename category summary =
     exec_insert_history d (save_history_query username now filename category summary)"

definition get_user_history :: "db \<Rightarrow> string \<Rightarrow> frame_row list outcome" where
  "get_user_history d username = exec_select_history d (get_user_history_query username)"

section \<open>The button handlers of main\<close>

record session =
  logged_in :: bool
  session_username :: string

datatype notice = StError string | StSuccess string | StWarning string

text \<open>The block under the button "Process Document Now". \<open>if category:\<close> is Python
  truthiness: \<open>None\<close> and the empty string are false. The result card that is drawn
  before the success notice is presentation only and is left out.\<close>

definition process_button ::
  "('img \<Rightarrow> exn + string) \<Rightarrow> 'vec resources \<Rightarrow> string \<Rightarrow> session \<Rightarrow> string \<Rightarrow> 'img \<Rightarrow> db \<Rightarrow>
   ((exn + notice) \<times> db) \<times> ('img, 'vec) event list" where
  "process_button image_to_string res now sess filename img d =
     (case xgb_model res of
        None \<Rightarrow> ((Inr (StError ''Models failed to load.''), d), [])
      | Some m \<Rightarrow>
         (case process_document image_to_string res img of
            (Inl e, tr) \<Rightarrow> ((Inl e, d), tr)
          | (Inr (category, summary, raw_text), tr) \<Rightarrow>
             (case category of
                None \<Rightarrow> ((Inr (StError ''Could not read text from image.''), d), tr)
              | Some c \<Rightarrow>
                 if c = [] then ((Inr (StError ''Could not read text from image.''), d), tr)
                 else
                   (case save_history now d (session_username sess) filename c summary of
                      Inl e \<Rightarrow> ((Inl e, d), tr)
                    | Inr d' \<Rightarrow>
                       ((Inr (StSuccess ''Analysis Complete & Saved to History!''), d'), tr)))))"

text \<open>The block under the button "Login": a non-empty result logs the user in and
  reruns the script (no notice); an empty one shows the error.\<close>

definition login_button ::
  "(string \<Rightarrow> string) \<Rightarrow> db \<Rightarrow> session \<Rightarrow> string \<Rightarrow> string \<Rightarrow> (exn + notice option) \<times> session" where
  "login_button sha256_hex d sess username password =
     (case login_user sha256_hex d username password of
        Inl e \<Rightarrow> (Inl e, sess)
      | Inr result \<Rightarrow>
         if result \<noteq> [] then
           (Inr None, sess\<lparr>logged_in := True, session_username := username\<rparr>)
         else (Inr (Some (StError ''Incorrect Username or Password'')), sess))"

text \<open>The block under the button "Create Account".\<close>

definition create_account_button ::
  "(string \<Rightarrow> string) \<Rightarrow> db \<Rightarrow> string \<Rightarrow> string \<Rightarrow> (exn + notice) \<times> db" where
  "create_account_button sha256_hex d username password =
     (case add_user sha256_hex d username password of
        (Inl e, d') \<Rightarrow> (Inl e, d')
      | (Inr ok, d') \<Rightarrow>
         (Inr (if ok then StSuccess ''Account Created! Please Login.''
               else StWarning ''Username already taken.''), d'))"

section \<open>Sequences of store calls and the invariants of the tables\<close>

datatype store_call =
    AddUser string string
  | SaveHistory string string string string "string option"

fun store_step :: "(string \<Rightarrow> string) \<Rightarrow> db \<Rightarrow> store_call \<Rightarrow> db" where
  "store_step sha256_hex d (AddUser username password) =
     snd (add_user sha256_hex d username password)"
| "store_step sha256_hex d (SaveHistory now username filename category summary) =
     (case save_history now d username filename category summary of
        Inr d' \<Rightarrow> d'
      | Inl e \<Rightarrow> d)"

definition store_run :: "(string \<Rightarrow> string) \<Rightarrow> store_call list \<Rightarrow> db" where
  "store_run sha256_hex calls = foldl (store_step sha256_hex) (init_db None) calls"

definition users_ok :: "db \<Rightarrow> bool" where
  "users_ok d = distinct (map fst (users d))"

definition history_ok :: "db \<Rightarrow> bool" where
  "history_ok d =
     (sorted_wrt (<) (map row_id (history d)) \<and>
      list_all (\<lambda>r. row_id r \<le> history_seq d) (history d))"

text \<open>The records that a sequence of calls saved for one user, oldest first.\<close>

fun saved_for :: "string \<Rightarrow> store_call list \<Rightarrow> frame_row list" where
  "saved_for u [] = []"
| "saved_for u (AddUser username password # calls) = saved_for u calls"
| "saved_for u (SaveHistory now username filename category summary # calls) =
     (if username = u then (now, filename, category, summary) # saved_for u calls
      else saved_for u calls)"

section \<open>Concrete engines and inputs for the evaluations\<close>

text \<open>An OCR engine on numbered images: image 10 reads as the letter a followed by
  sixty spaces, image 11 as three spaces, image 12 cannot be processed, image 13 reads
  as an invoice line of 55 characters, every other image as \<open>hi\<close>.\<close>

definition sample_ocr :: "nat \<Rightarrow> exn + string" where
  "sample_ocr i =
     (if i = 10 then Inr (CHR ''a'' # replicate 60 (CHR '' ''))
      else if i = 11 then Inr ''   ''
      else if i = 12 then Inl (ExternalError ''TesseractError'')
      else if i = 13 then Inr ''INVOICE #1023 Total Due: $450.00 payable within 30 days''
      else Inr ''hi'')"

definition sample_transform :: "string list \<Rightarrow> exn + nat" where
  "sample_transform docs = Inr (7 * length docs)"

definition sample_predict :: "nat \<Rightarrow> exn + nat list" where
  "sample_predict v = Inr [v]"

definition sample_inverse_transform :: "nat list \<Rightarrow> exn + string list" where
  "sample_inverse_transform idx = Inr (map (\<lambda>i. if i = 7 then ''invoice'' else ''letter'') idx)"

definition empty_inverse_transform :: "nat list \<Rightarrow> exn + string list" where
  "empty_inverse_transform idx = Inr (map (\<lambda>i. []) idx)"

definition sample_summarizer ::
  "string \<Rightarrow> nat \<Rightarrow> nat \<Rightarrow> bool \<Rightarrow> exn + (string \<times> string) list list" where
  "sample_summarizer t mx mn smp = Inr [[(''summary_text'', ''An invoice.'')]]"

definition sample_resources :: "nat resources" where
  "sample_resources =
     load_resources (Inr sample_predict) (Inr sample_transform)
       (Inr sample_inverse_transform) (Inr sample_summarizer)"

definition empty_label_resources :: "nat resources" where
  "empty_label_resources =
     load_resources (Inr sample_predict) (Inr sample_transform)
       (Inr empty_inverse_transform) (Inr sample_summarizer)"

definition sample_session :: session where
  "sample_session = \<lparr>logged_in = True, session_username = ''alice''\<rparr>"

text \<open>A stand-in for SHA-256 in the evaluations.\<close>

definition sample_hash :: "string \<Rightarrow> string" where
  "sample_hash p = rev p"

text \<open>The username \<open>' OR ''='\<close>, the username \<open>O'Brien\<close>, and a database in which
  alice and the first of them each saved one record.\<close>

definition tautology_name :: string where
  "tautology_name = [quote] @ '' OR '' @ [quote, quote] @ ''='' @ [quote]"

definition obrien :: string where
  "obrien = ''O'' @ [quote] @ ''Brien''"

definition two_user_calls :: "store_call list" where
  "two_user_calls =
     [AddUser ''alice'' ''pw1'', AddUser tautology_name ''pw2'',
      SaveHistory ''2024-01-01 10:00:00'' ''alice'' ''a.png'' ''invoice'' (Some ''An invoice.''),
      SaveHistory ''2024-01-02 11:00:00'' tautology_name ''b.png'' ''letter'' (Some ''A letter.'')]"

definition two_user_db :: db where
  "two_user_db = store_run sample_hash two_user_calls"

section \<open>Facts about runs and about the stages of process_document\<close>

lemma bind_run_Inl: "bind_run (Inl e, tr) f = (Inl e, tr)"
  by (simp add: bind_run_def)

lemma bind_run_Inr: "bind_run (Inr x, tr) f = (fst (f x), tr @ snd (f x))"
  by (simp add: bind_run_def split: prod.splits)

lemma bind_run_return: "bind_run (return_run x) f = f x"
  by (simp add: return_run_def bind_run_Inr)

lemma bind_run_raise: "bind_run (raise_run e) f = raise_run e"
  by (simp add: raise_run_def bind_run_Inl)

lemma bind_run_call_Inr: "r = Inr x \<Longrightarrow> bind_run (call_run ev r) f = (fst (f x), ev # snd (f x))"
  by (simp add: call_run_def bind_run_Inr)

lemma bind_run_call_Inl: "r = Inl e \<Longrightarrow> bind_run (call_run ev r) f = (Inl e, [ev])"
  by (simp add: call_run_def bind_run_Inl)

lemma dropWhile_all_iff: "(\<forall>x\<in>set (dropWhile P xs). P x) \<longleftrightarrow> (\<forall>x\<in>set xs. P x)"
  by (induction xs) auto

lemma strip_empty_iff: "strip s = [] \<longleftrightarrow> list_all isspace s"
  by (simp add: strip_def dropWhile_eq_Nil_conv dropWhile_all_iff list_all_iff)

lemma summarizer_calls_append:
  "summarizer_calls (xs @ ys) = summarizer_calls xs @ summarizer_calls ys"
  by (induction xs rule: summarizer_calls.induct) auto

lemma classification_no_summarizer_calls:
  "classification res text = (r, tr) \<Longrightarrow> summarizer_calls tr = []"
  by (auto simp: classification_def bind_run_def attr_of_def call_run_def index0_def
        return_run_def raise_run_def
      split: option.splits sum.splits list.splits prod.splits)

lemma process_document_blank:
  assumes "image_to_string img = Inr text" and "strip text = []"
  shows "process_document image_to_string res img =
           (Inr (None, None, ''No text found''), [OcrCall img])"
  using assms by (simp add: process_document_def bind_run_call_Inr return_run_def)

lemma process_document_ocr_raises:
  assumes "image_to_string img = Inl e"
  shows "process_document image_to_string res img = (Inl e, [OcrCall img])"
  using assms by (simp add: process_document_def bind_run_call_Inl)

lemma process_document_nonblank:
  assumes "image_to_string img = Inr text" and "strip text \<noteq> []"
  shows "process_document image_to_string res img =
           (case classification res text of
              (Inl e, tr) \<Rightarrow> (Inl e, OcrCall img # tr)
            | (Inr category, tr) \<Rightarrow>
                (case summarization res text of
                   (Inl e, tr') \<Rightarrow> (Inl e, OcrCall img # tr @ tr')
                 | (Inr summary, tr') \<Rightarrow>
                     (Inr (Some category, Some summary, text), OcrCall img # tr @ tr')))"
proof -
  obtain r tr where c: "classification res text = ((r, tr) :: (string, 'a, 'b) run)"
    by (cases "classification res text :: (string, 'a, 'b) run") auto
  obtain r' tr' where s: "summarization res text = ((r', tr') :: (string, 'a, 'b) run)"
    by (cases "summarization res text :: (string, 'a, 'b) run") auto
  show ?thesis
  proof (cases r)
    case (Inl e)
    with assms c show ?thesis
      by (simp add: process_document_def bind_run_call_Inr bind_run_Inl)
  next
    case (Inr category)
    with assms c s show ?thesis
      by (cases r') (simp_all add: process_document_def bind_run_call_Inr bind_run_Inl
            bind_run_Inr return_run_def)
  qed
qed

lemma summarization_short:
  assumes "length (take 3000 text) < 50"
  shows "summarization res text = (Inr ''Text too short to summarize.'', [])"
  using assms by (simp add: summarization_def return_run_def Let_def del: length_take)

lemma summarization_long:
  assumes "\<not> length (take 3000 text) < 50" and "summarizer res = Some summ"
  shows "summarization res text =
           (case summ (take 3000 text) 130 30 False of
              Inl e \<Rightarrow> (Inl e, [SummarizerCall (take 3000 text) 130 30 False])
            | Inr res0 \<Rightarrow>
                (case res0 of
                   [] \<Rightarrow> (Inl IndexError, [SummarizerCall (take 3000 text) 130 30 False])
                 | d # ds \<Rightarrow>
                     (case map_of d ''summary_text'' of
                        None \<Rightarrow> (Inl KeyError, [SummarizerCall (take 3000 text) 130 30 False])
                      | Some s \<Rightarrow> (Inr s, [SummarizerCall (take 3000 text) 130 30 False]))))"
  using assms
  by (simp add: summarization_def Let_def callable_of_def bind_run_return call_run_def
        bind_run_Inl bind_run_Inr index0_def getitem_def return_run_def raise_run_def
      del: length_take split: sum.splits list.splits option.splits)

lemma summarization_long_calls:
  assumes "\<not> length (take 3000 text) < 50" and "summarizer res = Some summ"
  shows "summarizer_calls (snd (summarization res text :: (string, 'img, 'vec) run)) =
           [(take 3000 text, 130, 30, False)]"
  using assms
  by (simp add: summarization_long del: length_take split: sum.splits list.splits option.splits)

lemma sample_resources_fields:
  "xgb_model sample_resources = Some sample_predict"
  "tfidf_vectorizer sample_resources = Some sample_transform"
  "label_encoder sample_resources = Some sample_inverse_transform"
  "summarizer sample_resources = Some sample_summarizer"
  by (simp_all add: sample_resources_def load_resources_def)

lemma empty_label_resources_fields:
  "xgb_model empty_label_resources = Some sample_predict"
  "tfidf_vectorizer empty_label_resources = Some sample_transform"
  "label_encoder empty_label_resources = Some empty_inverse_transform"
  "summarizer empty_label_resources = Some sample_summarizer"
  by (simp_all add: empty_label_resources_def load_resources_def)

lemma sample_classification:
  "classification sample_resources text =
     (Inr ''invoice'', [VectorizerCall [text], ClassifierCall 7, DecoderCall [7]])"
  by (simp add: classification_def sample_resources_fields attr_of_def bind_run_return
        call_run_def bind_run_Inr index0_def return_run_def sample_transform_def
        sample_predict_def sample_inverse_transform_def)

lemma empty_label_classification:
  "classification empty_label_resources text =
     (Inr [], [VectorizerCall [text], ClassifierCall 7, DecoderCall [7]])"
  by (simp add: classification_def empty_label_resources_fields attr_of_def bind_run_return
        call_run_def bind_run_Inr index0_def return_run_def sample_transform_def
        sample_predict_def empty_inverse_transform_def)

lemma sample_ocr_values:
  "sample_ocr 10 = Inr (CHR ''a'' # replicate 60 (CHR '' ''))"
  "sample_ocr 11 = Inr ''   ''"
  "sample_ocr 12 = Inl (ExternalError ''TesseractError'')"
  "sample_ocr 13 = Inr ''INVOICE #1023 Total Due: $450.00 payable within 30 days''"
  "sample_ocr 14 = Inr ''hi''"
  by (simp_all add: sample_ocr_def)

lemma dropWhile_replicate_append:
  "P x \<Longrightarrow> dropWhile P (replicate n x @ ys) = dropWhile P ys"
  by (induction n) auto

lemma strip_a_padded: "strip (CHR ''a'' # replicate n (CHR '' '')) = ''a''"
  by (simp add: strip_def isspace_def dropWhile_replicate_append)

section \<open>The claims about the pipeline\<close>

text \<open>C1. When the OCR text is empty or consists of whitespace only, process_document
  returns the failure triple \<open>(None, None, "No text found")\<close> after the OCR call alone:
  the trace holds no call to the vectorizer, the classifier, the label decoder or the
  summarizer. The button handler then shows "Could not read text from image." and leaves
  the database, hence the history table, as it was.\<close>

theorem C1_blank_text_fails_before_models:
  assumes "image_to_string img = Inr text" and "list_all isspace text"
  shows "process_document image_to_string res img =
           (Inr (None, None, ''No text found''), [OcrCall img]) \<and>
         (xgb_model res \<noteq> None \<longrightarrow>
            process_button image_to_string res now sess filename img d =
              ((Inr (StError ''Could not read text from image.''), d), [OcrCall img]))"
proof -
  from assms(2) have blank: "strip text = []"
    by (simp add: strip_empty_iff)
  have run: "process_document image_to_string res img =
               (Inr (None, None, ''No text found''), [OcrCall img])"
    using assms(1) blank by (rule process_document_blank)
  then show ?thesis
    by (auto simp: process_button_def)
qed

text \<open>C1 at image 11 of the sample engine, whose text is three spaces.\<close>

theorem C1_blank_text_witness:
  "sample_ocr 11 = Inr ''   '' \<and> list_all isspace ''   '' \<and>
   process_document sample_ocr sample_resources 11 =
     (Inr (None, None, ''No text found''), [OcrCall 11]) \<and>
   process_button sample_ocr sample_resources ''2024-01-03 09:00:00'' sample_session
       ''blank.png'' 11 (init_db None) =
     ((Inr (StError ''Could not read text from image.''), init_db None), [OcrCall 11])"
proof -
  have ocr: "sample_ocr 11 = Inr ''   ''"
    by (simp add: sample_ocr_values)
  have blank: "list_all isspace ''   ''"
    by (simp add: isspace_def)
  have loaded: "xgb_model sample_resources \<noteq> None"
    by (simp add: sample_resources_fields)
  from C1_blank_text_fails_before_models [of sample_ocr 11 "''   ''" sample_resources
      "''2024-01-03 09:00:00''" sample_session "''blank.png''" "init_db None"]
    ocr blank loaded
  show ?thesis by simp
qed

text \<open>C2 as stated fails: the text of image 10 is the letter a followed by sixty
  spaces. Truncated to 3000 characters and trimmed it has length 1, which is below 50,
  yet the summarization model is invoked and its output is returned, not the sentinel.\<close>

theorem C2_counterexample:
  "sample_ocr 10 = Inr (CHR ''a'' # replicate 60 (CHR '' '')) \<and>
   length (strip (take 3000 (CHR ''a'' # replicate 60 (CHR '' '')))) < 50 \<and>
   process_document sample_ocr sample_resources 10 =
     (Inr (Some ''invoice'', Some ''An invoice.'', CHR ''a'' # replicate 60 (CHR '' '')),
      [OcrCall 10, VectorizerCall [CHR ''a'' # replicate 60 (CHR '' '')], ClassifierCall 7,
       DecoderCall [7],
       SummarizerCall (CHR ''a'' # replicate 60 (CHR '' '')) 130 30 False])"
proof -
  have nonblank: "strip (CHR ''a'' # replicate 60 (CHR '' '')) \<noteq> []"
    by (simp add: strip_a_padded)
  have long: "\<not> length (take 3000 (CHR ''a'' # replicate 60 (CHR '' ''))) < 50"
    by simp
  have tk: "take 3000 (CHR ''a'' # replicate 60 (CHR '' '')) = CHR ''a'' # replicate 60 (CHR '' '')"
    by simp
  have summ: "summarization sample_resources (CHR ''a'' # replicate 60 (CHR '' '')) =
     (Inr ''An invoice.'', [SummarizerCall (CHR ''a'' # replicate 60 (CHR '' '')) 130 30 False])"
    using summarization_long [OF long sample_resources_fields(4)]
    by (simp add: sample_summarizer_def tk del: take_Cons_numeral)
  show ?thesis
    using process_document_nonblank [of sample_ocr 10 "CHR ''a'' # replicate 60 (CHR '' '')" sample_resources]
      nonblank
    by (simp add: sample_ocr_values sample_classification summ strip_a_padded tk
          del: take_Cons_numeral)
qed

text \<open>C2, amended: the threshold is on the length of the truncated input as it is, not
  trimmed. For a text that reaches part C (not blank, classified as \<open>category\<close>): the
  input is the first 3000 characters; if it has fewer than 50 characters the summary is
  exactly the sentinel and the trace holds no summarizer call; otherwise the summarizer
  is called exactly once, on the truncated input with max_length 130, min_length 30 and
  do_sample False, and the \<open>summary_text\<close> of its first output is the summary.\<close>

theorem C2_summary_threshold_on_raw_length:
  assumes "image_to_string img = Inr text" and "strip text \<noteq> []"
    and "classification res text = (Inr category, tr)"
  shows "(length (take 3000 text) < 50 \<longrightarrow>
            process_document image_to_string res img =
              (Inr (Some category, Some ''Text too short to summarize.'', text),
               OcrCall img # tr) \<and>
            summarizer_calls (snd (process_document image_to_string res img)) = []) \<and>
         (\<not> length (take 3000 text) < 50 \<longrightarrow> summarizer res = Some summ \<longrightarrow>
            summarizer_calls (snd (process_document image_to_string res img)) =
              [(take 3000 text, 130, 30, False)] \<and>
            (\<forall>d ds s. summ (take 3000 text) 130 30 False = Inr (d # ds) \<longrightarrow>
               map_of d ''summary_text'' = Some s \<longrightarrow>
               fst (process_document image_to_string res img) =
                 Inr (Some category, Some s, text)))"
proof -
  have no_calls: "summarizer_calls tr = []"
    using assms(3) by (rule classification_no_summarizer_calls)
  have run: "process_document image_to_string res img =
       (case summarization res text of
          (Inl e, tr') \<Rightarrow> (Inl e, OcrCall img # tr @ tr')
        | (Inr summary, tr') \<Rightarrow>
            (Inr (Some category, Some summary, text), OcrCall img # tr @ tr'))"
    using process_document_nonblank [of image_to_string img "text" res] assms
    by simp
  have short: "length (take 3000 text) < 50 \<Longrightarrow>
      process_document image_to_string res img =
        (Inr (Some category, Some ''Text too short to summarize.'', text), OcrCall img # tr)"
    by (simp add: run summarization_short del: length_take)
  have long_calls: "\<not> length (take 3000 text) < 50 \<Longrightarrow> summarizer res = Some summ \<Longrightarrow>
      summarizer_calls (snd (process_document image_to_string res img)) =
        [(take 3000 text, 130, 30, False)]"
    by (simp add: run summarization_long summarizer_calls_append no_calls
          del: length_take split: sum.splits list.splits option.splits)
  have long_result: "\<not> length (take 3000 text) < 50 \<Longrightarrow> summarizer res = Some summ \<Longrightarrow>
      summ (take 3000 text) 130 30 False = Inr (d # ds) \<Longrightarrow>
      map_of d ''summary_text'' = Some s \<Longrightarrow>
      fst (process_document image_to_string res img) = Inr (Some category, Some s, text)"
    for d ds s
    by (simp add: run summarization_long del: length_take)
  from short long_calls long_result no_calls show ?thesis
    by (simp del: length_take)
qed

text \<open>C2 (amended) at the sample engine: image 14 reads \<open>hi\<close> (sentinel, no call);
  image 13 reads a line of 55 characters (one call with 130, 30, False).\<close>

theorem C2_summary_threshold_witness:
  "sample_ocr 14 = Inr ''hi'' \<and> strip ''hi'' \<noteq> [] \<and>
   length (take 3000 ''hi'') < 50 \<and>
   process_document sample_ocr sample_resources 14 =
     (Inr (Some ''invoice'', Some ''Text too short to summarize.'', ''hi''),
      [OcrCall 14, VectorizerCall [''hi''], ClassifierCall 7, DecoderCall [7]]) \<and>
   summarizer_calls (snd (process_document sample_ocr sample_resources 14)) = [] \<and>
   sample_ocr 13 = Inr ''INVOICE #1023 Total Due: $450.00 payable within 30 days'' \<and>
   \<not> length (take 3000 ''INVOICE #1023 Total Due: $450.00 payable within 30 days'') < 50 \<and>
   summarizer_calls (snd (process_document sample_ocr sample_resources 13)) =
     [(''INVOICE #1023 Total Due: $450.00 payable within 30 days'', 130, 30, False)] \<and>
   fst (process_document sample_ocr sample_resources 13) =
     Inr (Some ''invoice'', Some ''An invoice.'',
          ''INVOICE #1023 Total Due: $450.00 payable within 30 days'')"
proof -
  have nb14: "strip ''hi'' \<noteq> []"
    by (simp add: strip_def isspace_def)
  have nb13: "strip ''INVOICE #1023 Total Due: $450.00 payable within 30 days'' \<noteq> []"
    by (simp add: strip_def isspace_def)
  have short: "length (take 3000 ''hi'') < 50"
    by simp
  have long: "\<not> length (take 3000 ''INVOICE #1023 Total Due: $450.00 payable within 30 days'') < 50"
    by simp
  have tk: "take 3000 ''INVOICE #1023 Total Due: $450.00 payable within 30 days'' =
              ''INVOICE #1023 Total Due: $450.00 payable within 30 days''"
    by simp
  have out: "sample_summarizer (take 3000 ''INVOICE #1023 Total Due: $450.00 payable within 30 days'')
               130 30 False = Inr [[(''summary_text'', ''An invoice.'')]]"
    by (simp add: sample_summarizer_def)
  have key: "map_of [(''summary_text'', ''An invoice.'')] ''summary_text'' = Some ''An invoice.''"
    by simp
  note a = C2_summary_threshold_on_raw_length [of sample_ocr 14 "''hi''" sample_resources
      "''invoice''" "[VectorizerCall [''hi''], ClassifierCall 7, DecoderCall [7]]"
      sample_summarizer, OF sample_ocr_values(5) nb14 sample_classification]
  note b = C2_summary_threshold_on_raw_length [of sample_ocr 13
      "''INVOICE #1023 Total Due: $450.00 payable within 30 days''" sample_resources
      "''invoice''"
      "[VectorizerCall [''INVOICE #1023 Total Due: $450.00 payable within 30 days''],
        ClassifierCall 7, DecoderCall [7]]"
      sample_summarizer, OF sample_ocr_values(4) nb13 sample_classification]
  from a short have a': "process_document sample_ocr sample_resources 14 =
     (Inr (Some ''invoice'', Some ''Text too short to summarize.'', ''hi''),
      [OcrCall 14, VectorizerCall [''hi''], ClassifierCall 7, DecoderCall [7]])"
    and a'': "summarizer_calls (snd (process_document sample_ocr sample_resources 14)) = []"
    by blast+
  from b long sample_resources_fields(4) have
    b': "summarizer_calls (snd (process_document sample_ocr sample_resources 13)) =
     [(take 3000 ''INVOICE #1023 Total Due: $450.00 payable within 30 days'', 130, 30, False)]"
    and b'': "\<forall>d ds s. sample_summarizer
         (take 3000 ''INVOICE #1023 Total Due: $450.00 payable within 30 days'') 130 30 False =
           Inr (d # ds) \<longrightarrow>
         map_of d ''summary_text'' = Some s \<longrightarrow>
         fst (process_document sample_ocr sample_resources 13) =
           Inr (Some ''invoice'', Some s,
                ''INVOICE #1023 Total Due: $450.00 payable within 30 days'')"
    by blast+
  from b'' out key have b3: "fst (process_document sample_ocr sample_resources 13) =
     Inr (Some ''invoice'', Some ''An invoice.'',
          ''INVOICE #1023 Total Due: $450.00 payable within 30 days'')"
    by blast
  from b' tk have b4: "summarizer_calls (snd (process_document sample_ocr sample_resources 13)) =
     [(''INVOICE #1023 Total Due: $450.00 payable within 30 days'', 130, 30, False)]"
    by (simp only:)
  show ?thesis
    using sample_ocr_values(4,5) nb14 short long a' a'' b3 b4 by blast
qed

lemma save_history_eq:
  "save_history now d username filename category summary =
     Inr (d\<lparr>history := history d @
               [\<lparr>row_id = Suc (history_seq d), row_username = username,
                 row_timestamp = now, row_filename = filename,
                 row_category = category, row_summary = summary\<rparr>],
            history_seq := Suc (history_seq d)\<rparr>)"
  by (simp add: save_history_def save_history_query_def)

lemma process_button_returned:
  assumes "xgb_model res = Some m"
    and "process_document image_to_string res img = (Inr (c, s, t), tr)"
  shows "process_button image_to_string res now sess filename img d =
           (case c of
              None \<Rightarrow> ((Inr (StError ''Could not read text from image.''), d), tr)
            | Some cat \<Rightarrow>
                if cat = [] then ((Inr (StError ''Could not read text from image.''), d), tr)
                else ((Inr (StSuccess ''Analysis Complete & Saved to History!''),
                       d\<lparr>history := history d @
                            [\<lparr>row_id = Suc (history_seq d),
                              row_username = session_username sess,
                              row_timestamp = now, row_filename = filename,
                              row_category = cat, row_summary = s\<rparr>],
                          history_seq := Suc (history_seq d)\<rparr>), tr))"
  using assms by (simp add: process_button_def save_history_eq split: option.splits)

lemma process_button_raised:
  assumes "xgb_model res = Some m"
    and "process_document image_to_string res img = (Inl e, tr)"
  shows "process_button image_to_string res now sess filename img d = ((Inl e, d), tr)"
  using assms by (simp add: process_button_def)

text \<open>C3 as stated fails: the sample engine cannot process image 12, and the
  exception of the engine itself leaves process_document and the button handler; no
  failure value is returned.\<close>

theorem C3_counterexample:
  "sample_ocr 12 = Inl (ExternalError ''TesseractError'') \<and>
   process_document sample_ocr sample_resources 12 =
     (Inl (ExternalError ''TesseractError''), [OcrCall 12]) \<and>
   process_button sample_ocr sample_resources ''2024-01-03 09:00:00'' sample_session
       ''scan.png'' 12 (init_db None) =
     ((Inl (ExternalError ''TesseractError''), init_db None), [OcrCall 12])"
proof -
  have run: "process_document sample_ocr sample_resources 12 =
               (Inl (ExternalError ''TesseractError''), [OcrCall 12])"
    using sample_ocr_values(3) by (rule process_document_ocr_raises)
  show ?thesis
    using run process_button_raised [OF sample_resources_fields(1) run]
    by (simp add: sample_ocr_values)
qed

text \<open>C3, amended: when the OCR engine raises on an image, process_document returns
  nothing: the engine's exception leaves it unchanged, after the OCR call alone, and
  leaves the button handler too, with the database as it was. That outcome differs from
  the empty-text failure, which is a returned triple.\<close>

theorem C3_ocr_exception_propagates:
  assumes "image_to_string img = Inl e"
  shows "process_document image_to_string res img = (Inl e, [OcrCall img]) \<and>
         fst (process_document image_to_string res img) \<noteq>
           Inr (None, None, ''No text found'') \<and>
         (xgb_model res \<noteq> None \<longrightarrow>
            process_button image_to_string res now sess filename img d =
              ((Inl e, d), [OcrCall img]))"
proof -
  have run: "process_document image_to_string res img = (Inl e, [OcrCall img])"
    using assms by (rule process_document_ocr_raises)
  then show ?thesis
    by (auto simp: process_button_raised)
qed

text \<open>C3 (amended) at image 12 of the sample engine.\<close>

theorem C3_ocr_exception_witness:
  "sample_ocr 12 = Inl (ExternalError ''TesseractError'') \<and>
   xgb_model sample_resources \<noteq> None \<and>
   fst (process_document sample_ocr sample_resources 12) = Inl (ExternalError ''TesseractError'') \<and>
   snd (process_document sample_ocr sample_resources 12) = [OcrCall 12] \<and>
   fst (fst (process_button sample_ocr sample_resources ''2024-01-03 09:00:00'' sample_session
       ''scan.png'' 12 (init_db None))) = Inl (ExternalError ''TesseractError'')"
proof -
  have loaded: "xgb_model sample_resources \<noteq> None"
    by (simp add: sample_resources_fields)
  from C3_ocr_exception_propagates [of sample_ocr 12 "ExternalError ''TesseractError''"
      sample_resources "''2024-01-03 09:00:00''" sample_session "''scan.png''" "init_db None",
      OF sample_ocr_values(3)] loaded
  show ?thesis
    by (simp add: sample_ocr_values)
qed

text \<open>C4. If any one of the four loads raises, load_resources returns four \<open>None\<close>s,
  and from then on every click on the process button shows "Models failed to load."
  with an empty trace: process_document is not entered, so the OCR engine is never
  called, and the database is as it was.\<close>

theorem C4_failed_load_blocks_pipeline:
  assumes "isl load_model \<or> isl load_vectorizer \<or> isl load_encoder \<or> isl load_summarizer"
  shows "load_resources load_model load_vectorizer load_encoder load_summarizer =
           no_resources \<and>
         process_button image_to_string
             (load_resources load_model load_vectorizer load_encoder load_summarizer)
             now sess filename img d =
           ((Inr (StError ''Models failed to load.''), d), [])"
proof -
  have none: "load_resources load_model load_vectorizer load_encoder load_summarizer =
                no_resources"
    using assms by (auto simp: load_resources_def isl_def split: sum.splits)
  have "process_button image_to_string no_resources now sess filename img d =
          ((Inr (StError ''Models failed to load.''), d), [])"
    by (simp add: process_button_def no_resources_def)
  with none show ?thesis by simp
qed

text \<open>C4 with the label decoder missing: the other three artifacts load.\<close>

theorem C4_failed_load_witness:
  "isl (Inl (ExternalError ''FileNotFoundError'') :: exn + (nat list \<Rightarrow> exn + string list)) \<and>
   load_resources (Inr sample_predict) (Inr sample_transform)
       (Inl (ExternalError ''FileNotFoundError'')) (Inr sample_summarizer) = no_resources \<and>
   process_button sample_ocr
       (load_resources (Inr sample_predict) (Inr sample_transform)
          (Inl (ExternalError ''FileNotFoundError'')) (Inr sample_summarizer))
       ''2024-01-03 09:00:00'' sample_session ''scan.png'' 13 (init_db None) =
     ((Inr (StError ''Models failed to load.''), init_db None), [])"
proof -
  have failed: "isl (Inr sample_predict) \<or> isl (Inr sample_transform) \<or>
      isl (Inl (ExternalError ''FileNotFoundError'') :: exn + (nat list \<Rightarrow> exn + string list)) \<or>
      isl (Inr sample_summarizer)"
    by simp
  from C4_failed_load_blocks_pipeline [OF failed, of sample_ocr "''2024-01-03 09:00:00''"
      sample_session "''scan.png''" 13 "init_db None"]
  show ?thesis by auto
qed

lemma process_document_returned_category:
  assumes "image_to_string img = Inr text"
    and "process_document image_to_string res img = (Inr (c, s, t), tr)"
  shows "(c = None) = (strip text = []) \<and>
         (c = None \<longrightarrow> s = None \<and> t = ''No text found'') \<and>
         (c \<noteq> None \<longrightarrow> s \<noteq> None \<and> t = text)"
proof (cases "strip text = []")
  case True
  with assms show ?thesis
    by (simp add: process_document_blank [of image_to_string img "text"])
next
  case False
  from process_document_nonblank [of image_to_string img "text" res] assms False
  show ?thesis
    by (auto split: prod.splits sum.splits)
qed

text \<open>C10 as stated fails in its first part: process_document does not always return.
  On image 12 the OCR engine raises and no triple comes back.\<close>

theorem C10_counterexample:
  "fst (process_document sample_ocr sample_resources 12) =
     Inl (ExternalError ''TesseractError'')"
  using process_document_ocr_raises [of sample_ocr 12 "ExternalError ''TesseractError''"
      sample_resources]
  by (simp add: sample_ocr_values)

text \<open>C10, amended: whenever the OCR engine returns a text, and for a text that is not
  blank the classification and summarization stages return too, process_document
  returns a triple. In every returned triple the category is \<open>None\<close> exactly when the
  trimmed text is empty; then the summary is \<open>None\<close> and the third component is
  "No text found", otherwise the third component is the text. The button handler
  decides by the truthiness of the category: for \<open>None\<close> and for the empty label it
  shows "Could not read text from image." and the database is as it was; for any other
  label it appends one history row and reports success.\<close>

theorem C10_failure_encoding:
  assumes "image_to_string img = Inr text"
  shows "(strip text = [] \<longrightarrow>
            process_document image_to_string res img =
              (Inr (None, None, ''No text found''), [OcrCall img])) \<and>
         (strip text \<noteq> [] \<longrightarrow> classification res text = (Inr category, tr1) \<longrightarrow>
            summarization res text = (Inr summary, tr2) \<longrightarrow>
            process_document image_to_string res img =
              (Inr (Some category, Some summary, text), OcrCall img # tr1 @ tr2)) \<and>
         (\<forall>c s t tr. process_document image_to_string res img = (Inr (c, s, t), tr) \<longrightarrow>
            (c = None) = (strip text = []) \<and>
            (c = None \<longrightarrow> s = None \<and> t = ''No text found'') \<and>
            (c \<noteq> None \<longrightarrow> t = text)) \<and>
         (\<forall>s t tr. xgb_model res \<noteq> None \<longrightarrow>
            process_document image_to_string res img = (Inr (None, s, t), tr) \<longrightarrow>
            process_button image_to_string res now sess filename img d =
              ((Inr (StError ''Could not read text from image.''), d), tr)) \<and>
         (\<forall>cat s t tr. xgb_model res \<noteq> None \<longrightarrow>
            process_document image_to_string res img = (Inr (Some cat, s, t), tr) \<longrightarrow>
            process_button image_to_string res now sess filename img d =
              (if cat = [] then ((Inr (StError ''Could not read text from image.''), d), tr)
               else
                 ((Inr (StSuccess ''Analysis Complete & Saved to History!''),
                   d\<lparr>history := history d @
                        [\<lparr>row_id = Suc (history_seq d),
                          row_username = session_username sess,
                          row_timestamp = now, row_filename = filename,
                          row_category = cat, row_summary = s\<rparr>],
                      history_seq := Suc (history_seq d)\<rparr>), tr)))"
proof -
  have blank: "strip text = [] \<Longrightarrow> process_document image_to_string res img =
      (Inr (None, None, ''No text found''), [OcrCall img])"
    using assms by (rule process_document_blank)
  have full: "strip text \<noteq> [] \<Longrightarrow> classification res text = (Inr category, tr1) \<Longrightarrow>
      summarization res text = (Inr summary, tr2) \<Longrightarrow>
      process_document image_to_string res img =
        (Inr (Some category, Some summary, text), OcrCall img # tr1 @ tr2)"
    using process_document_nonblank [of image_to_string img "text" res] assms by simp
  have enc: "process_document image_to_string res img = (Inr (c, s, t), tr) \<Longrightarrow>
      (c = None) = (strip text = []) \<and>
      (c = None \<longrightarrow> s = None \<and> t = ''No text found'') \<and>
      (c \<noteq> None \<longrightarrow> t = text)" for c s t tr
    using process_document_returned_category [of image_to_string img "text" res c s t tr] assms
    by blast
  have falsy: "xgb_model res \<noteq> None \<Longrightarrow>
      process_document image_to_string res img = (Inr (None, s, t), tr) \<Longrightarrow>
      process_button image_to_string res now sess filename img d =
        ((Inr (StError ''Could not read text from image.''), d), tr)" for s t tr
    by (auto simp: process_button_returned)
  have label: "xgb_model res \<noteq> None \<Longrightarrow>
      process_document image_to_string res img = (Inr (Some cat, s, t), tr) \<Longrightarrow>
      process_button image_to_string res now sess filename img d =
        (if cat = [] then ((Inr (StError ''Could not read text from image.''), d), tr)
         else
           ((Inr (StSuccess ''Analysis Complete & Saved to History!''),
             d\<lparr>history := history d @
                  [\<lparr>row_id = Suc (history_seq d),
                    row_username = session_username sess,
                    row_timestamp = now, row_filename = filename,
                    row_category = cat, row_summary = s\<rparr>],
                history_seq := Suc (history_seq d)\<rparr>), tr))" for cat s t tr
    by (auto simp: process_button_returned)
  from blank full enc falsy label show ?thesis
    by blast
qed

lemma invoice_summarization:
  "summarizer res = Some sample_summarizer \<Longrightarrow>
   summarization res ''INVOICE #1023 Total Due: $450.00 payable within 30 days'' =
     (Inr ''An invoice.'',
      [SummarizerCall ''INVOICE #1023 Total Due: $450.00 payable within 30 days'' 130 30 False])"
  by (simp add: summarization_def Let_def callable_of_def bind_run_return call_run_def
        bind_run_Inr index0_def getitem_def return_run_def sample_summarizer_def)

text \<open>C10 (amended) where the label decoder answers with the empty string: the triple
  of image 13 holds the empty category, and the handler reports a failure and saves
  nothing.\<close>

theorem C10_failure_encoding_witness:
  "sample_ocr 13 = Inr ''INVOICE #1023 Total Due: $450.00 payable within 30 days'' \<and>
   strip ''INVOICE #1023 Total Due: $450.00 payable within 30 days'' \<noteq> [] \<and>
   xgb_model empty_label_resources \<noteq> None \<and>
   process_document sample_ocr empty_label_resources 13 =
     (Inr (Some [], Some ''An invoice.'',
           ''INVOICE #1023 Total Due: $450.00 payable within 30 days''),
      [OcrCall 13,
       VectorizerCall [''INVOICE #1023 Total Due: $450.00 payable within 30 days''],
       ClassifierCall 7, DecoderCall [7],
       SummarizerCall ''INVOICE #1023 Total Due: $450.00 payable within 30 days'' 130 30 False]) \<and>
   process_button sample_ocr empty_label_resources ''2024-01-03 09:00:00'' sample_session
       ''invoice.png'' 13 (init_db None) =
     ((Inr (StError ''Could not read text from image.''), init_db None),
      [OcrCall 13,
       VectorizerCall [''INVOICE #1023 Total Due: $450.00 payable within 30 days''],
       ClassifierCall 7, DecoderCall [7],
       SummarizerCall ''INVOICE #1023 Total Due: $450.00 payable within 30 days'' 130 30 False])"
proof -
  have nb: "strip ''INVOICE #1023 Total Due: $450.00 payable within 30 days'' \<noteq> []"
    by (simp add: strip_def isspace_def)
  have loaded: "xgb_model empty_label_resources \<noteq> None"
    by (simp add: empty_label_resources_fields)
  note inst = C10_failure_encoding [of sample_ocr 13
      "''INVOICE #1023 Total Due: $450.00 payable within 30 days''" empty_label_resources
      "[]" "[VectorizerCall [''INVOICE #1023 Total Due: $450.00 payable within 30 days''],
             ClassifierCall 7, DecoderCall [7]]"
      "''An invoice.''"
      "[SummarizerCall ''INVOICE #1023 Total Due: $450.00 payable within 30 days'' 130 30 False]"
      "''2024-01-03 09:00:00''" sample_session "''invoice.png''" "init_db None",
      OF sample_ocr_values(4)]
  from inst nb empty_label_classification
    invoice_summarization [OF empty_label_resources_fields(4)]
  have run: "process_document sample_ocr empty_label_resources 13 =
     (Inr (Some [], Some ''An invoice.'',
           ''INVOICE #1023 Total Due: $450.00 payable within 30 days''),
      OcrCall 13 #
      [VectorizerCall [''INVOICE #1023 Total Due: $450.00 payable within 30 days''],
       ClassifierCall 7, DecoderCall [7]] @
      [SummarizerCall ''INVOICE #1023 Total Due: $450.00 payable within 30 days'' 130 30 False])"
    by blast
  from inst loaded run
  have "process_button sample_ocr empty_label_resources ''2024-01-03 09:00:00'' sample_session
       ''invoice.png'' 13 (init_db None) =
     (if ([] :: string) = [] then
        ((Inr (StError ''Could not read text from image.''), init_db None),
         OcrCall 13 #
         [VectorizerCall [''INVOICE #1023 Total Due: $450.00 payable within 30 days''],
          ClassifierCall 7, DecoderCall [7]] @
         [SummarizerCall ''INVOICE #1023 Total Due: $450.00 payable within 30 days'' 130 30 False])
      else
        ((Inr (StSuccess ''Analysis Complete & Saved to History!''),
          (init_db None)\<lparr>history := history (init_db None) @
               [\<lparr>row_id = Suc (history_seq (init_db None)),
                 row_username = session_username sample_session,
                 row_timestamp = ''2024-01-03 09:00:00'', row_filename = ''invoice.png'',
                 row_category = [], row_summary = Some ''An invoice.''\<rparr>],
             history_seq := Suc (history_seq (init_db None))\<rparr>),
         OcrCall 13 #
         [VectorizerCall [''INVOICE #1023 Total Due: $450.00 payable within 30 days''],
          ClassifierCall 7, DecoderCall [7]] @
         [SummarizerCall ''INVOICE #1023 Total Due: $450.00 payable within 30 days'' 130 30 False]))"
    by blast
  with run nb loaded show ?thesis
    by (simp add: sample_ocr_values)
qed

section \<open>Facts about the store\<close>

lemma add_user_new:
  "username \<notin> set (map fst (users d)) \<Longrightarrow>
   add_user H d username password =
     (Inr True, d\<lparr>users := users d @ [(username, make_hashes H password)]\<rparr>)"
  by (simp add: add_user_def add_user_query_def)

lemma add_user_existing:
  "username \<in> set (map fst (users d)) \<Longrightarrow> add_user H d username password = (Inr False, d)"
  by (simp add: add_user_def add_user_query_def)

lemma login_user_eq:
  "login_user H d username password =
     Inr (filter (\<lambda>r. fst r = username \<and> snd r = make_hashes H password) (users d))"
  by (simp add: login_user_def login_user_query_def)

lemma store_step_users:
  "users (store_step H d c) = users d \<or>
   (\<exists>u p. u \<notin> set (map fst (users d)) \<and> users (store_step H d c) = users d @ [(u, p)])"
proof (cases c)
  case (AddUser u p)
  then show ?thesis
    by (cases "u \<in> set (map fst (users d))") (simp_all add: add_user_new add_user_existing)
next
  case (SaveHistory now u f cat s)
  then show ?thesis
    by (simp add: save_history_eq)
qed

lemma users_ok_store_step: "users_ok d \<Longrightarrow> users_ok (store_step H d c)"
  using store_step_users [of H d c] by (auto simp: users_ok_def)

lemma users_ok_foldl: "users_ok d \<Longrightarrow> users_ok (foldl (store_step H) d calls)"
  by (induction calls arbitrary: d) (simp_all add: users_ok_store_step)

lemma users_ok_store_run: "users_ok (store_run H calls)"
  unfolding store_run_def
  by (rule users_ok_foldl) (simp add: users_ok_def init_db_def)

lemma distinct_keys_at_most_one:
  "distinct (map fst xs) \<Longrightarrow> length (filter (\<lambda>r. fst r = v) xs) \<le> 1"
proof (induction xs)
  case Nil
  then show ?case by simp
next
  case (Cons x xs)
  show ?case
  proof (cases "fst x = v")
    case True
    with Cons.prems have "filter (\<lambda>r. fst r = v) xs = []"
      by (auto simp: filter_empty_conv image_iff)
    with True show ?thesis by simp
  next
    case False
    with Cons show ?thesis by simp
  qed
qed

lemma users_ok_at_most_one:
  "users_ok d \<Longrightarrow> length (filter (\<lambda>r. fst r = v) (users d)) \<le> 1"
  unfolding users_ok_def by (rule distinct_keys_at_most_one)

section \<open>The claims about the user store\<close>

text \<open>C5. Registering a username that is not in the table succeeds and appends exactly
  one credential row for it, with the hash of the password; registering the same
  username again, with any password, returns False (the warning "Username already
  taken.", not an exception) and leaves the database as it is. After any sequence of
  store calls on a new database, no username has more than one credential row.\<close>

theorem C5_register_once:
  assumes "username \<notin> set (map fst (users d))"
  shows "add_user H d username p1 =
           (Inr True, d\<lparr>users := users d @ [(username, make_hashes H p1)]\<rparr>) \<and>
         length (filter (\<lambda>r. fst r = username)
                   (users (snd (add_user H d username p1)))) = 1 \<and>
         add_user H (snd (add_user H d username p1)) username p2 =
           (Inr False, snd (add_user H d username p1)) \<and>
         create_account_button H (snd (add_user H d username p1)) username p2 =
           (Inr (StWarning ''Username already taken.''), snd (add_user H d username p1)) \<and>
         length (filter (\<lambda>r. fst r = v) (users (store_run H calls))) \<le> 1"
proof -
  let ?d1 = "d\<lparr>users := users d @ [(username, make_hashes H p1)]\<rparr>"
  have first: "add_user H d username p1 = (Inr True, ?d1)"
    using assms by (rule add_user_new)
  have none: "filter (\<lambda>r. fst r = username) (users d) = []"
    using assms by (auto simp: filter_empty_conv)
  have one: "length (filter (\<lambda>r. fst r = username) (users ?d1)) = 1"
    by (simp add: none)
  have second: "add_user H ?d1 username p2 = (Inr False, ?d1)"
    by (rule add_user_existing) simp
  have button: "create_account_button H ?d1 username p2 =
                  (Inr (StWarning ''Username already taken.''), ?d1)"
    by (simp add: create_account_button_def second)
  have ever: "length (filter (\<lambda>r. fst r = v) (users (store_run H calls))) \<le> 1"
    using users_ok_store_run by (rule users_ok_at_most_one)
  from first one second button ever show ?thesis
    by simp
qed

text \<open>C5 on a new database: bob registers twice.\<close>

theorem C5_register_once_witness:
  "''bob'' \<notin> set (map fst (users (init_db None))) \<and>
   add_user sample_hash (init_db None) ''bob'' ''secret'' =
     (Inr True, \<lparr>users = [(''bob'', ''terces'')], history = [], history_seq = 0\<rparr>) \<and>
   add_user sample_hash \<lparr>users = [(''bob'', ''terces'')], history = [], history_seq = 0\<rparr>
       ''bob'' ''other'' =
     (Inr False, \<lparr>users = [(''bob'', ''terces'')], history = [], history_seq = 0\<rparr>)"
proof -
  have fresh: "''bob'' \<notin> set (map fst (users (init_db None)))"
    by (simp add: init_db_def)
  from C5_register_once [OF fresh, of sample_hash "''secret''" "''other''" "''bob''" "[]"] fresh
  show ?thesis
    by (auto simp: init_db_def make_hashes_def sample_hash_def)
qed

lemma login_button_eq:
  "login_button H d sess username password =
     (if filter (\<lambda>r. fst r = username \<and> snd r = make_hashes H password) (users d) \<noteq> []
      then (Inr None, sess\<lparr>logged_in := True, session_username := username\<rparr>)
      else (Inr (Some (StError ''Incorrect Username or Password'')), sess))"
  by (simp add: login_button_def login_user_eq)

lemma store_step_keeps_rows_of:
  assumes "filter (\<lambda>r. fst r = u) (users d) = [(u, h)]"
  shows "filter (\<lambda>r. fst r = u) (users (store_step H d c)) = [(u, h)]"
proof -
  from assms have "(u, h) \<in> set (filter (\<lambda>r. fst r = u) (users d))"
    by simp
  then have present: "u \<in> set (map fst (users d))"
    by force
  from store_step_users [of H d c] show ?thesis
  proof
    assume "users (store_step H d c) = users d"
    with assms show ?thesis by simp
  next
    assume "\<exists>v p. v \<notin> set (map fst (users d)) \<and> users (store_step H d c) = users d @ [(v, p)]"
    then obtain v p where "v \<notin> set (map fst (users d))"
      and "users (store_step H d c) = users d @ [(v, p)]"
      by blast
    with present assms show ?thesis by auto
  qed
qed

lemma foldl_keeps_rows_of:
  "filter (\<lambda>r. fst r = u) (users d) = [(u, h)] \<Longrightarrow>
   filter (\<lambda>r. fst r = u) (users (foldl (store_step H) d calls)) = [(u, h)]"
  by (induction calls arbitrary: d) (simp_all add: store_step_keeps_rows_of)

lemma filter_key_and_value:
  "filter (\<lambda>r. fst r = u \<and> snd r = h) xs = filter (\<lambda>r. snd r = h) (filter (\<lambda>r. fst r = u) xs)"
  by (induction xs) auto

text \<open>C7. login_user returns the empty list, and the login button shows "Incorrect
  Username or Password" and leaves the session as it was, both when the username has no
  credential row and when it has one whose stored hash differs from the hash of the
  supplied password: the same result in the two cases.\<close>

theorem C7_wrong_password_and_unknown_user_rejected:
  assumes "username \<notin> set (map fst (users d)) \<or>
           (users_ok d \<and> (username, stored) \<in> set (users d) \<and>
            make_hashes H password \<noteq> stored)"
  shows "login_user H d username password = Inr [] \<and>
         login_button H d sess username password =
           (Inr (Some (StError ''Incorrect Username or Password'')), sess)"
proof -
  have none: "filter (\<lambda>r. fst r = username \<and> snd r = make_hashes H password) (users d) = []"
    using assms
  proof
    assume "username \<notin> set (map fst (users d))"
    then show ?thesis
      by (auto simp: filter_empty_conv)
  next
    assume reg: "users_ok d \<and> (username, stored) \<in> set (users d) \<and>
                 make_hashes H password \<noteq> stored"
    then have dist: "distinct (map fst (users d))"
      by (simp add: users_ok_def)
    have "snd r = stored" if "r \<in> set (users d)" and "fst r = username" for r
    proof -
      from that have "(username, snd r) \<in> set (users d)"
        by (cases r) auto
      with dist reg show ?thesis
        by (metis eq_key_imp_eq_value)
    qed
    with reg show ?thesis
      by (auto simp: filter_empty_conv)
  qed
  then show ?thesis
    by (simp add: login_user_eq login_button_eq)
qed

text \<open>C7 in the database of alice and the second user: alice with a wrong password,
  and bob, who never registered.\<close>

theorem C7_rejected_witness:
  "users_ok two_user_db \<and> (''alice'', ''1wp'') \<in> set (users two_user_db) \<and>
   make_hashes sample_hash ''guess'' \<noteq> ''1wp'' \<and>
   login_user sample_hash two_user_db ''alice'' ''guess'' = Inr [] \<and>
   ''bob'' \<notin> set (map fst (users two_user_db)) \<and>
   login_user sample_hash two_user_db ''bob'' ''pw1'' = Inr []"
proof -
  have u: "users two_user_db = [(''alice'', ''1wp''), (tautology_name, ''2wp'')]"
    by (simp add: two_user_db_def two_user_calls_def store_run_def init_db_def
          add_user_new make_hashes_def sample_hash_def tautology_name_def quote_def
          save_history_eq)
  have ok: "users_ok two_user_db"
    by (simp add: u users_ok_def tautology_name_def quote_def)
  have alice: "(''alice'', ''1wp'') \<in> set (users two_user_db)"
    by (simp add: u)
  have wrong: "make_hashes sample_hash ''guess'' \<noteq> ''1wp''"
    by (simp add: make_hashes_def sample_hash_def)
  have bob: "''bob'' \<notin> set (map fst (users two_user_db))"
    by (simp add: u tautology_name_def quote_def)
  from ok alice wrong have case2: "''alice'' \<notin> set (map fst (users two_user_db)) \<or>
      (users_ok two_user_db \<and> (''alice'', ''1wp'') \<in> set (users two_user_db) \<and>
       make_hashes sample_hash ''guess'' \<noteq> ''1wp'')"
    by blast
  from bob have case1: "''bob'' \<notin> set (map fst (users two_user_db)) \<or>
      (users_ok two_user_db \<and> (''bob'', ''1wp'') \<in> set (users two_user_db) \<and>
       make_hashes sample_hash ''pw1'' \<noteq> ''1wp'')"
    by blast
  from C7_wrong_password_and_unknown_user_rejected [OF case2, of sample_session]
    C7_wrong_password_and_unknown_user_rejected [OF case1, of sample_session]
    ok alice wrong bob
  show ?thesis by blast
qed

text \<open>C8. If add_user succeeds for a username and a password, login_user with the same
  pair returns the one credential row, so the login button logs the user in; this stays
  so after any further store calls. The stored hash is the value of make_hashes on the
  password, a function of the password alone, and check_hashes accepts it.\<close>

theorem C8_register_then_authenticate:
  assumes "fst (add_user H d username password) = Inr True"
  shows "login_user H (snd (add_user H d username password)) username password =
           Inr [(username, make_hashes H password)] \<and>
         login_button H (snd (add_user H d username password)) sess username password =
           (Inr None, sess\<lparr>logged_in := True, session_username := username\<rparr>) \<and>
         login_user H (foldl (store_step H) (snd (add_user H d username password)) calls)
             username password =
           Inr [(username, make_hashes H password)] \<and>
         check_hashes H password (make_hashes H password)"
proof -
  have fresh: "username \<notin> set (map fst (users d))"
  proof
    assume "username \<in> set (map fst (users d))"
    then have "add_user H d username password = (Inr False, d)"
      by (rule add_user_existing)
    with assms show False by simp
  qed
  let ?d1 = "d\<lparr>users := users d @ [(username, make_hashes H password)]\<rparr>"
  have d1: "snd (add_user H d username password) = ?d1"
    using fresh by (simp add: add_user_new)
  have "filter (\<lambda>r. fst r = username) (users d) = []"
    using fresh by (auto simp: filter_empty_conv)
  then have row: "filter (\<lambda>r. fst r = username) (users ?d1) =
                    [(username, make_hashes H password)]"
    by simp
  have later: "filter (\<lambda>r. fst r = username) (users (foldl (store_step H) ?d1 calls)) =
                 [(username, make_hashes H password)]"
    using row by (rule foldl_keeps_rows_of)
  have a: "login_user H ?d1 username password = Inr [(username, make_hashes H password)]"
    by (simp only: login_user_eq filter_key_and_value row) simp
  have b: "login_button H ?d1 sess username password =
             (Inr None, sess\<lparr>logged_in := True, session_username := username\<rparr>)"
    by (simp only: login_button_eq filter_key_and_value row) simp
  have c: "login_user H (foldl (store_step H) ?d1 calls) username password =
             Inr [(username, make_hashes H password)]"
    by (simp only: login_user_eq filter_key_and_value later) simp
  have e: "check_hashes H password (make_hashes H password)"
    by (simp add: check_hashes_def)
  from a b c e show ?thesis
    by (simp only: d1 simp_thms)
qed

text \<open>C8 on a new database: bob registers and logs in, also after alice registered and
  a record was saved.\<close>

theorem C8_register_then_authenticate_witness:
  "fst (add_user sample_hash (init_db None) ''bob'' ''secret'') = Inr True \<and>
   login_user sample_hash (snd (add_user sample_hash (init_db None) ''bob'' ''secret''))
       ''bob'' ''secret'' = Inr [(''bob'', ''terces'')] \<and>
   login_user sample_hash
       (foldl (store_step sample_hash)
          (snd (add_user sample_hash (init_db None) ''bob'' ''secret''))
          [AddUser ''alice'' ''pw1'', AddUser ''bob'' ''again'',
           SaveHistory ''2024-01-01 10:00:00'' ''bob'' ''a.png'' ''invoice'' None])
       ''bob'' ''secret'' = Inr [(''bob'', ''terces'')]"
proof -
  have ok: "fst (add_user sample_hash (init_db None) ''bob'' ''secret'') = Inr True"
    by (simp add: add_user_new init_db_def)
  have h: "make_hashes sample_hash ''secret'' = ''terces''"
    by (simp add: make_hashes_def sample_hash_def)
  from C8_register_then_authenticate [OF ok, of sample_session
      "[AddUser ''alice'' ''pw1'', AddUser ''bob'' ''again'',
        SaveHistory ''2024-01-01 10:00:00'' ''bob'' ''a.png'' ''invoice'' None]"] ok h
  show ?thesis by simp
qed

section \<open>The claims about the history store and the query texts\<close>

lemma two_user_history:
  "history two_user_db =
     [\<lparr>row_id = 1, row_username = ''alice'', row_timestamp = ''2024-01-01 10:00:00'',
       row_filename = ''a.png'', row_category = ''invoice'',
       row_summary = Some ''An invoice.''\<rparr>,
      \<lparr>row_id = 2, row_username = tautology_name, row_timestamp = ''2024-01-02 11:00:00'',
       row_filename = ''b.png'', row_category = ''letter'',
       row_summary = Some ''A letter.''\<rparr>]"
  by (simp add: two_user_db_def two_user_calls_def store_run_def init_db_def
        add_user_def add_user_query_def save_history_eq)

lemma tautology_tokens:
  "lex Between (drop (length select_history_where) (fst (get_user_history_query tautology_name))) =
     Returns [TWord ''username'', TEq, TStr [], TWord ''OR'', TStr [], TEq, TStr [],
              TWord ''ORDER'', TWord ''BY'', TWord ''id'', TWord ''DESC'']"
  by (simp add: get_user_history_query_def tautology_name_def quote_def is_letter_def)

lemma obrien_tokens:
  "lex Between (drop (length select_history_where) (fst (get_user_history_query obrien))) =
     Raises DatabaseError"
  by (simp add: get_user_history_query_def obrien_def quote_def is_letter_def)

lemma select_history_split:
  "take (length select_history_where) (fst (get_user_history_query u)) = select_history_where"
  "snd (get_user_history_query u) = []"
  by (simp_all add: get_user_history_query_def)

lemma lex_literal_body:
  "quote \<notin> set u \<Longrightarrow> CHR 0x00 \<notin> set u \<Longrightarrow>
   lex (InLit v) (u @ quote # rest) = lex (LitQuote (v @ u)) rest"
  by (induction u arbitrary: v) auto

lemma plain_username_tokens:
  assumes "quote \<notin> set u" and "CHR 0x00 \<notin> set u"
  shows "lex Between (drop (length select_history_where) (fst (get_user_history_query u))) =
           Returns [TWord ''username'', TEq, TStr u,
                    TWord ''ORDER'', TWord ''BY'', TWord ''id'', TWord ''DESC'']"
proof -
  have "lex (InLit []) (u @ quote # '' ORDER BY id DESC'') =
          lex (LitQuote ([] @ u)) '' ORDER BY id DESC''"
    using assms by (rule lex_literal_body)
  then show ?thesis
    by (simp add: get_user_history_query_def is_letter_def quote_def)
qed

lemma get_user_history_plain:
  assumes "quote \<notin> set u" and "CHR 0x00 \<notin> set u"
  shows "get_user_history d u =
           Returns (map project (rev (sort_key row_id
                      (filter (\<lambda>r. row_username r = u) (history d)))))"
  using plain_username_tokens [OF assms]
  by (simp add: get_user_history_def exec_select_history_def Let_def select_history_split)

lemma history_ok_store_step: "history_ok d \<Longrightarrow> history_ok (store_step H d c)"
proof (cases c)
  case (AddUser u p)
  assume "history_ok d"
  with AddUser show ?thesis
    by (cases "u \<in> set (map fst (users d))")
       (simp_all add: add_user_new add_user_existing history_ok_def)
next
  case (SaveHistory now u f cat s)
  assume "history_ok d"
  with SaveHistory show ?thesis
    by (auto simp: save_history_eq history_ok_def sorted_wrt_append list_all_iff
        intro: le_SucI)
qed

lemma history_ok_foldl: "history_ok d \<Longrightarrow> history_ok (foldl (store_step H) d calls)"
  by (induction calls arbitrary: d) (simp_all add: history_ok_store_step)

lemma saved_rows_foldl:
  "map project (filter (\<lambda>r. row_username r = u) (history (foldl (store_step H) d calls))) =
     map project (filter (\<lambda>r. row_username r = u) (history d)) @ saved_for u calls"
proof (induction calls arbitrary: d)
  case Nil
  then show ?case by simp
next
  case (Cons c calls)
  show ?case
  proof (cases c)
    case (AddUser v p)
    have "history (store_step H d c) = history d"
      using AddUser
      by (cases "v \<in> set (map fst (users d))") (simp_all add: add_user_new add_user_existing)
    with Cons.IH [of "store_step H d c"] AddUser show ?thesis
      by simp
  next
    case (SaveHistory now v f cat s)
    with Cons.IH [of "store_step H d c"] show ?thesis
      by (simp add: save_history_eq project_def)
  qed
qed

lemma sort_filter_history:
  assumes "history_ok d"
  shows "sort_key row_id (filter P (history d)) = filter P (history d)"
proof -
  from assms have "sorted_wrt (<) (map row_id (history d))"
    by (simp add: history_ok_def)
  then have "sorted (map row_id (history d))"
    by (rule strict_sorted_imp_sorted)
  then have "sorted (map row_id (filter P (history d)))"
    by (rule sorted_filter)
  then show ?thesis
    by (rule sort_key_id_if_sorted)
qed

text \<open>For a username without a quote character and without a NUL character the
  history query does what C6 says: after any sequence of store calls on a new database
  it returns exactly the records saved for that username, newest first.\<close>

lemma history_of_plain_username:
  assumes "quote \<notin> set u" and "CHR 0x00 \<notin> set u"
  shows "get_user_history (store_run H calls) u = Returns (rev (saved_for u calls))"
proof -
  have ok: "history_ok (store_run H calls)"
    unfolding store_run_def
    by (rule history_ok_foldl) (simp add: history_ok_def init_db_def)
  have rows: "map project (filter (\<lambda>r. row_username r = u) (history (store_run H calls))) =
                saved_for u calls"
    using saved_rows_foldl [of u H "init_db None" calls]
    by (simp add: store_run_def init_db_def)
  show ?thesis
    by (simp add: get_user_history_plain [OF assms] sort_filter_history [OF ok]
          rev_map [symmetric] rows)
qed

text \<open>C6 fails on the code for a username that contains a quote character, because
  get_user_history pastes the username into the text of the query (the defect of C9).
  The user \<open>' OR ''='\<close> saved one record, yet the history of that user holds two
  records, one of them the record of alice. For \<open>O'Brien\<close>, who has no runs, the query
  is not well-formed and the call raises instead of returning zero records.\<close>

theorem C6_history_of_quoted_username:
  "saved_for tautology_name two_user_calls =
     [(''2024-01-02 11:00:00'', ''b.png'', ''letter'', Some ''A letter.'')] \<and>
   get_user_history (store_run sample_hash two_user_calls) tautology_name =
     Returns [(''2024-01-02 11:00:00'', ''b.png'', ''letter'', Some ''A letter.''),
              (''2024-01-01 10:00:00'', ''a.png'', ''invoice'', Some ''An invoice.'')] \<and>
   saved_for obrien two_user_calls = [] \<and>
   get_user_history (store_run sample_hash two_user_calls) obrien = Raises DatabaseError"
proof -
  have a: "saved_for tautology_name two_user_calls =
     [(''2024-01-02 11:00:00'', ''b.png'', ''letter'', Some ''A letter.'')]"
    by (simp add: two_user_calls_def tautology_name_def quote_def)
  have b: "get_user_history two_user_db tautology_name =
     Returns [(''2024-01-02 11:00:00'', ''b.png'', ''letter'', Some ''A letter.''),
              (''2024-01-01 10:00:00'', ''a.png'', ''invoice'', Some ''An invoice.'')]"
    by (simp add: get_user_history_def exec_select_history_def Let_def select_history_split
          tautology_tokens two_user_history project_def)
  have c: "saved_for obrien two_user_calls = []"
    by (simp add: two_user_calls_def tautology_name_def obrien_def quote_def)
  have e: "get_user_history two_user_db obrien = Raises DatabaseError"
    by (simp add: get_user_history_def exec_select_history_def Let_def select_history_split
          obrien_tokens)
  from a b c e show ?thesis
    by (simp add: two_user_db_def)
qed

text \<open>C9 fails on the code for get_user_history. The texts of the statements of
  add_user, login_user and save_history do not depend on their arguments, which travel
  as bound values. The text of the history query contains the username: for alice and
  for bob the two texts differ, and no value is bound.\<close>

theorem C9_history_query_text_depends_on_username:
  "fst (add_user_query H u p) = fst (add_user_query H' u' p') \<and>
   fst (login_user_query H u p) = fst (login_user_query H' u' p') \<and>
   fst (save_history_query u t f c s) = fst (save_history_query u' t' f' c' s') \<and>
   fst (get_user_history_query ''alice'') \<noteq> fst (get_user_history_query ''bob'') \<and>
   snd (get_user_history_query ''alice'') = [] \<and>
   fst (get_user_history_query tautology_name) =
     select_history_where @ ''username = '' @ [quote, quote] @ '' OR '' @
       [quote, quote] @ ''='' @ [quote, quote] @ '' ORDER BY id DESC''"
  by (simp add: add_user_query_def login_user_query_def save_history_query_def
        get_user_history_query_def tautology_name_def)

end
